theory Spec2Isabelle
  imports Complex_Main
begin

section \<open>JavaScript values, objects, Maps and Sets\<close>

text \<open>
  The engine stores schema-less records. The values modelled here are the ones the
  verified properties speak about: \<open>undefined\<close>, integral numbers and strings.
  A missing property reads as \<open>Undefined\<close>, as in JavaScript. Nested objects,
  booleans and \<open>null\<close> as field values are outside the model.
\<close>

datatype jsval = Undefined | Num int | Str string

text \<open>Truthiness, as used by \<open>a || b\<close>: \<open>undefined\<close>, \<open>0\<close> and the empty string are falsy.\<close>

fun truthy :: "jsval \<Rightarrow> bool" where
  "truthy Undefined = False"
| "truthy (Num n) = (n \<noteq> 0)"
| "truthy (Str s) = (s \<noteq> [])"

definition js_or :: "jsval \<Rightarrow> jsval \<Rightarrow> jsval" where
  "js_or a b = (if truthy a then a else b)"

text \<open>The test \<open>v !== undefined\<close>.\<close>

fun defined :: "jsval \<Rightarrow> bool" where
  "defined Undefined = False"
| "defined _ = True"

text \<open>String comparison is lexicographic on the code units.\<close>

fun str_lt :: "string \<Rightarrow> string \<Rightarrow> bool" where
  "str_lt [] [] = False"
| "str_lt [] (y # ys) = True"
| "str_lt (x # xs) [] = False"
| "str_lt (x # xs) (y # ys) =
     (if x = y then str_lt xs ys else (of_char x :: nat) < of_char y)"

text \<open>
  The relational operators \<open><\<close>, \<open><=\<close>, \<open>>\<close>, \<open>>=\<close>. A comparison with \<open>undefined\<close>
  is false. A comparison of a number with a string converts the string to a number in
  JavaScript; strings that denote numbers are outside the model, so such a comparison
  is one with \<open>NaN\<close> and is false.
\<close>

fun js_lt :: "jsval \<Rightarrow> jsval \<Rightarrow> bool" where
  "js_lt (Num a) (Num b) = (a < b)"
| "js_lt (Str a) (Str b) = str_lt a b"
| "js_lt _ _ = False"

fun js_le :: "jsval \<Rightarrow> jsval \<Rightarrow> bool" where
  "js_le (Num a) (Num b) = (a \<le> b)"
| "js_le (Str a) (Str b) = (\<not> str_lt b a)"
| "js_le _ _ = False"

definition js_gt :: "jsval \<Rightarrow> jsval \<Rightarrow> bool" where
  "js_gt a b = js_lt b a"

definition js_ge :: "jsval \<Rightarrow> jsval \<Rightarrow> bool" where
  "js_ge a b = js_le b a"

text \<open>
  A JavaScript \<open>Map\<close> iterates in insertion order, and \<open>set\<close> on an existing key keeps
  the key's position: an association list with these operations.
\<close>

fun map_set :: "'k \<Rightarrow> 'v \<Rightarrow> ('k \<times> 'v) list \<Rightarrow> ('k \<times> 'v) list" where
  "map_set k v [] = [(k, v)]"
| "map_set k v ((k', v') # m) =
     (if k = k' then (k, v) # m else (k', v') # map_set k v m)"

definition map_get :: "('k \<times> 'v) list \<Rightarrow> 'k \<Rightarrow> 'v option" where
  "map_get m k = map_of m k"

definition map_has :: "('k \<times> 'v) list \<Rightarrow> 'k \<Rightarrow> bool" where
  "map_has m k = (map_of m k \<noteq> None)"

definition map_delete :: "'k \<Rightarrow> ('k \<times> 'v) list \<Rightarrow> ('k \<times> 'v) list" where
  "map_delete k m = filter (\<lambda>e. fst e \<noteq> k) m"

text \<open>A JavaScript \<open>Set\<close>: a list without repetitions, in insertion order.\<close>

definition set_add :: "'a \<Rightarrow> 'a list \<Rightarrow> 'a list" where
  "set_add x s = (if x \<in> set s then s else s @ [x])"

definition set_has :: "'a list \<Rightarrow> 'a \<Rightarrow> bool" where
  "set_has s x = (x \<in> set s)"

definition set_delete :: "'a \<Rightarrow> 'a list \<Rightarrow> 'a list" where
  "set_delete x s = removeAll x s"

text \<open>
  An object (a record of the store) is its list of own properties. Reading a missing
  property gives \<open>Undefined\<close>; the spread \<open>{...a, ...b}\<close> writes the properties of
  \<open>b\<close> over those of \<open>a\<close>.
\<close>

type_synonym obj = "(string \<times> jsval) list"

definition getProp :: "obj \<Rightarrow> string \<Rightarrow> jsval" where
  "getProp r k = (case map_of r k of None \<Rightarrow> Undefined | Some v \<Rightarrow> v)"

definition spread :: "obj \<Rightarrow> obj \<Rightarrow> obj" where
  "spread a b = foldl (\<lambda>acc (k, v). map_set k v acc) a b"

text \<open>
  \<open>Array.prototype.sort\<close> with a comparator is stable: an insertion sort that places an
  element before the first one it does not compare greater than.
\<close>

fun sort_insert :: "('a \<Rightarrow> 'a \<Rightarrow> int) \<Rightarrow> 'a \<Rightarrow> 'a list \<Rightarrow> 'a list" where
  "sort_insert cmp x [] = [x]"
| "sort_insert cmp x (y # ys) =
     (if cmp x y \<le> 0 then x # y # ys else y # sort_insert cmp x ys)"

definition js_sort :: "('a \<Rightarrow> 'a \<Rightarrow> int) \<Rightarrow> 'a list \<Rightarrow> 'a list" where
  "js_sort cmp xs = foldr (sort_insert cmp) xs []"

section \<open>The cache\<close>

text \<open>
  Modelled from the spec: the cache class (\<open>SimpleCache\<close>), which the table requires
  from a module of its own that the repository's sources do not include. The spec describes a bounded
  key-to-record map with least-recently-used eviction and hit/miss accounting:
  \<open>get\<close> counts a hit or a miss, \<open>set\<close> inserts or refreshes recency and evicts the
  least recently used entry when the cache is at capacity. The entries are kept
  least recently used first.
\<close>

record cache =
  entries :: "(jsval \<times> obj) list"
  capacity :: nat
  hits :: nat
  misses :: nat

definition cache_new :: "nat \<Rightarrow> cache" where
  "cache_new n = \<lparr>entries = [], capacity = n, hits = 0, misses = 0\<rparr>"

definition cache_has :: "cache \<Rightarrow> jsval \<Rightarrow> bool" where
  "cache_has c k = map_has (entries c) k"

definition cache_set :: "jsval \<Rightarrow> obj \<Rightarrow> cache \<Rightarrow> cache" where
  "cache_set k v c =
     (if map_has (entries c) k
      then c\<lparr>entries := map_delete k (entries c) @ [(k, v)]\<rparr>
      else if length (entries c) \<ge> capacity c
      then c\<lparr>entries := tl (entries c) @ [(k, v)]\<rparr>
      else c\<lparr>entries := entries c @ [(k, v)]\<rparr>)"

definition cache_get :: "cache \<Rightarrow> jsval \<Rightarrow> obj option \<times> cache" where
  "cache_get c k =
     (case map_get (entries c) k of
        None \<Rightarrow> (None, c\<lparr>misses := misses c + 1\<rparr>)
      | Some v \<Rightarrow>
          (Some v, c\<lparr>entries := map_delete k (entries c) @ [(k, v)], hits := hits c + 1\<rparr>))"

definition cache_delete :: "jsval \<Rightarrow> cache \<Rightarrow> cache" where
  "cache_delete k c = c\<lparr>entries := map_delete k (entries c)\<rparr>"

definition cache_clear :: "cache \<Rightarrow> cache" where
  "cache_clear c = c\<lparr>entries := []\<rparr>"

section \<open>The index manager\<close>

text \<open>
  An index is a hash index, a Map from a value to the Set of ids holding it, or a
  sorted index: the array \<open>values\<close> of (value, id) entries and the Map \<open>map\<close> from
  id to value. \<open>indices\<close> maps a field to its index.
\<close>

datatype index =
  Hash "(jsval \<times> jsval list) list"
| Sorted "(jsval \<times> jsval) list" "(jsval \<times> jsval) list"

type_synonym indices = "(string \<times> index) list"

text \<open>
  \<open>getFieldValue\<close> follows a dot-separated path. Field values of the model are not
  objects, so a path of more than one part ends in \<open>undefined\<close>.
\<close>

definition getFieldValue :: "obj \<Rightarrow> string \<Rightarrow> jsval" where
  "getFieldValue record field =
     (if CHR ''.'' \<in> set field then Undefined else getProp record field)"

text \<open>
  \<open>isNumericOrDateField\<close> samples up to ten present values. Whether \<open>Date.parse\<close>
  accepts a string is the parameter \<open>isDate\<close>.
\<close>

fun sampleLoop :: "(string \<Rightarrow> bool) \<Rightarrow> string \<Rightarrow> obj list \<Rightarrow> nat \<Rightarrow> nat \<Rightarrow> nat \<times> nat" where
  "sampleLoop isDate field [] samples numericCount = (samples, numericCount)"
| "sampleLoop isDate field (record # rest) samples numericCount =
     (let v = getFieldValue record field in
      if v \<noteq> Undefined then
        (let numericCount' =
               (if (case v of Num n \<Rightarrow> True | Str s \<Rightarrow> isDate s | Undefined \<Rightarrow> False)
                then numericCount + 1 else numericCount);
             samples' = samples + 1
         in if samples' \<ge> 10 then (samples', numericCount')
            else sampleLoop isDate field rest samples' numericCount')
      else sampleLoop isDate field rest samples numericCount)"

definition isNumericOrDateField :: "(string \<Rightarrow> bool) \<Rightarrow> (jsval \<times> obj) list \<Rightarrow> string \<Rightarrow> bool" where
  "isNumericOrDateField isDate data field =
     (if length data = 0 then False
      else (let (samples, numericCount) = sampleLoop isDate field (map snd data) 0 0
            in samples > 0 \<and> numericCount = samples))"

definition value_cmp :: "(jsval \<times> jsval) \<Rightarrow> (jsval \<times> jsval) \<Rightarrow> int" where
  "value_cmp a b = (if js_lt (fst a) (fst b) then -1 else if js_gt (fst a) (fst b) then 1 else 0)"

fun hashCollect :: "string \<Rightarrow> (jsval \<times> obj) list \<Rightarrow> (jsval \<times> jsval list) list \<Rightarrow> (jsval \<times> jsval list) list" where
  "hashCollect field [] index = index"
| "hashCollect field ((rid, record) # rest) index =
     (let v = getFieldValue record field in
      if v \<noteq> Undefined then
        (let index' = (if \<not> map_has index v then map_set v [] index else index)
         in hashCollect field rest (map_set v (set_add rid (the (map_get index' v))) index'))
      else hashCollect field rest index)"

fun sortedCollect :: "string \<Rightarrow> (jsval \<times> obj) list \<Rightarrow> (jsval \<times> jsval) list \<Rightarrow> (jsval \<times> jsval) list
    \<Rightarrow> (jsval \<times> jsval) list \<times> (jsval \<times> jsval) list" where
  "sortedCollect field [] vals m = (vals, m)"
| "sortedCollect field ((rid, record) # rest) vals m =
     (let v = getFieldValue record field in
      if v \<noteq> Undefined then sortedCollect field rest (vals @ [(v, rid)]) (map_set rid v m)
      else sortedCollect field rest vals m)"

definition createIndex :: "(string \<Rightarrow> bool) \<Rightarrow> string \<Rightarrow> (jsval \<times> obj) list \<Rightarrow> indices \<Rightarrow> indices" where
  "createIndex isDate field data ix =
     (if isNumericOrDateField isDate data field
      then (let (vals, m) = sortedCollect field data [] []
            in map_set field (Sorted (js_sort value_cmp vals) m) ix)
      else map_set field (Hash (hashCollect field data [])) ix)"

definition dropIndex :: "string \<Rightarrow> indices \<Rightarrow> indices" where
  "dropIndex field ix = map_delete field ix"

definition hasIndex :: "indices \<Rightarrow> string \<Rightarrow> bool" where
  "hasIndex ix field = map_has ix field"

datatype indexType = TSorted | THash

definition getIndexType :: "indices \<Rightarrow> string \<Rightarrow> indexType option" where
  "getIndexType ix field =
     (case map_get ix field of
        None \<Rightarrow> None
      | Some (Sorted vals m) \<Rightarrow> Some TSorted
      | Some (Hash h) \<Rightarrow> Some THash)"

text \<open>\<open>updateHashIndex\<close>: the old and the new record may be \<open>null\<close> (\<open>None\<close>).\<close>

definition updateHashIndex :: "string \<Rightarrow> (jsval \<times> jsval list) list \<Rightarrow> jsval \<Rightarrow> obj option \<Rightarrow> obj option
    \<Rightarrow> (jsval \<times> jsval list) list" where
  "updateHashIndex field index rid oldRecord newRecord =
     (let index1 =
        (case oldRecord of
           None \<Rightarrow> index
         | Some old \<Rightarrow>
             (let oldValue = getFieldValue old field in
              if oldValue \<noteq> Undefined \<and> map_has index oldValue then
                (let ids = set_delete rid (the (map_get index oldValue))
                 in if length ids = 0 then map_delete oldValue index
                    else map_set oldValue ids index)
              else index))
      in case newRecord of
           None \<Rightarrow> index1
         | Some new \<Rightarrow>
             (let newValue = getFieldValue new field in
              if newValue \<noteq> Undefined then
                (let index2 = (if \<not> map_has index1 newValue then map_set newValue [] index1 else index1)
                 in map_set newValue (set_add rid (the (map_get index2 newValue))) index2)
              else index1))"

text \<open>
  \<open>binarySearch\<close> looks for the entry (value, id), taking the array as ordered by value
  and then by id; it returns \<open>-1\<close> when the search interval becomes empty.
\<close>

function binarySearchLoop :: "(jsval \<times> jsval) list \<Rightarrow> jsval \<Rightarrow> jsval \<Rightarrow> int \<Rightarrow> int \<Rightarrow> int" where
  "binarySearchLoop arr v rid left right =
     (if left \<le> right then
        (let mid = (left + right) div 2;
             e = arr ! nat mid
         in if fst e = v \<and> snd e = rid then mid
            else if js_lt (fst e) v \<or> (fst e = v \<and> js_lt (snd e) rid)
            then binarySearchLoop arr v rid (mid + 1) right
            else binarySearchLoop arr v rid left (mid - 1))
      else -1)"
  by pat_completeness auto
termination
  by (relation "measure (\<lambda>(arr, v, rid, left, right). nat (right - left + 1))") auto

definition binarySearch :: "(jsval \<times> jsval) list \<Rightarrow> jsval \<Rightarrow> jsval \<Rightarrow> int" where
  "binarySearch arr v rid = binarySearchLoop arr v rid 0 (int (length arr) - 1)"

function findInsertLoop :: "(jsval \<times> jsval) list \<Rightarrow> jsval \<Rightarrow> nat \<Rightarrow> nat \<Rightarrow> nat" where
  "findInsertLoop arr v left right =
     (if left < right then
        (let mid = (left + right) div 2
         in if js_le (fst (arr ! mid)) v
            then findInsertLoop arr v (mid + 1) right
            else findInsertLoop arr v left mid)
      else left)"
  by pat_completeness auto
termination
  by (relation "measure (\<lambda>(arr, v, left, right). right - left)") auto

definition findInsertPosition :: "(jsval \<times> jsval) list \<Rightarrow> jsval \<Rightarrow> nat" where
  "findInsertPosition arr v = findInsertLoop arr v 0 (length arr)"

text \<open>\<open>splice(i, 1)\<close> and \<open>splice(i, 0, x)\<close>.\<close>

definition splice_remove :: "nat \<Rightarrow> 'a list \<Rightarrow> 'a list" where
  "splice_remove i xs = take i xs @ drop (i + 1) xs"

definition splice_insert :: "nat \<Rightarrow> 'a \<Rightarrow> 'a list \<Rightarrow> 'a list" where
  "splice_insert i x xs = take i xs @ [x] @ drop i xs"

definition updateSortedIndex :: "string \<Rightarrow> (jsval \<times> jsval) list \<Rightarrow> (jsval \<times> jsval) list \<Rightarrow> jsval
    \<Rightarrow> obj option \<Rightarrow> obj option \<Rightarrow> (jsval \<times> jsval) list \<times> (jsval \<times> jsval) list" where
  "updateSortedIndex field vals m rid oldRecord newRecord =
     (let (vals1, m1) =
        (if (case oldRecord of Some old \<Rightarrow> True | None \<Rightarrow> map_has m rid) then
           (let oldValue =
                  (case oldRecord of
                     Some old \<Rightarrow> getFieldValue old field
                   | None \<Rightarrow> (case map_get m rid of Some v \<Rightarrow> v | None \<Rightarrow> Undefined))
            in if oldValue \<noteq> Undefined then
                 (let idx = binarySearch vals oldValue rid
                  in (if idx \<ge> 0 then splice_remove (nat idx) vals else vals, map_delete rid m))
               else (vals, m))
         else (vals, m))
      in case newRecord of
           None \<Rightarrow> (vals1, m1)
         | Some new \<Rightarrow>
             (let newValue = getFieldValue new field in
              if newValue \<noteq> Undefined then
                (let insertIdx = findInsertPosition vals1 newValue
                 in (splice_insert insertIdx (newValue, rid) vals1, map_set rid newValue m1))
              else (vals1, m1)))"

definition updateIndex :: "jsval \<Rightarrow> obj option \<Rightarrow> obj option \<Rightarrow> string \<times> index \<Rightarrow> string \<times> index" where
  "updateIndex rid oldRecord newRecord e =
     (case e of
        (field, Sorted vals m) \<Rightarrow>
          (let (vals', m') = updateSortedIndex field vals m rid oldRecord newRecord
           in (field, Sorted vals' m'))
      | (field, Hash h) \<Rightarrow> (field, Hash (updateHashIndex field h rid oldRecord newRecord)))"

definition updateIndices :: "jsval \<Rightarrow> obj option \<Rightarrow> obj option \<Rightarrow> indices \<Rightarrow> indices" where
  "updateIndices rid oldRecord newRecord ix = map (updateIndex rid oldRecord newRecord) ix"

definition removeFromIndices :: "jsval \<Rightarrow> obj \<Rightarrow> indices \<Rightarrow> indices" where
  "removeFromIndices rid record ix = map (updateIndex rid (Some record) None) ix"

text \<open>
  \<open>findByIndex\<close> returns \<open>null\<close> (\<open>None\<close>) for a field without an index. On a sorted
  index it scans the entries in order and stops at the first value greater than the
  one looked for.
\<close>

fun findExactLoop :: "(jsval \<times> jsval) list \<Rightarrow> jsval \<Rightarrow> jsval list \<Rightarrow> jsval list" where
  "findExactLoop [] v results = results"
| "findExactLoop (item # rest) v results =
     (if fst item = v then findExactLoop rest v (set_add (snd item) results)
      else if js_gt (fst item) v then results
      else findExactLoop rest v results)"

definition findByIndex :: "indices \<Rightarrow> string \<Rightarrow> jsval \<Rightarrow> jsval list option" where
  "findByIndex ix field v =
     (case map_get ix field of
        None \<Rightarrow> None
      | Some (Sorted vals m) \<Rightarrow> Some (findExactLoop vals v [])
      | Some (Hash h) \<Rightarrow> Some (case map_get h v of Some ids \<Rightarrow> ids | None \<Rightarrow> []))"

fun findRangeLoop :: "(jsval \<times> jsval) list \<Rightarrow> jsval \<Rightarrow> jsval \<Rightarrow> bool \<Rightarrow> bool \<Rightarrow> jsval list \<Rightarrow> jsval list" where
  "findRangeLoop [] mn mx includeMin includeMax results = results"
| "findRangeLoop (item # rest) mn mx includeMin includeMax results =
     (let v = fst item in
      if mn \<noteq> Undefined \<and> (if includeMin then js_lt v mn else js_le v mn)
      then findRangeLoop rest mn mx includeMin includeMax results
      else if mx \<noteq> Undefined \<and> (if includeMax then js_gt v mx else js_ge v mx)
      then results
      else findRangeLoop rest mn mx includeMin includeMax (set_add (snd item) results))"

definition findByRange :: "indices \<Rightarrow> string \<Rightarrow> jsval \<Rightarrow> jsval \<Rightarrow> bool \<Rightarrow> bool \<Rightarrow> jsval list option" where
  "findByRange ix field mn mx includeMin includeMax =
     (case map_get ix field of
        Some (Sorted vals m) \<Rightarrow> Some (findRangeLoop vals mn mx includeMin includeMax [])
      | _ \<Rightarrow> None)"

section \<open>The table\<close>

text \<open>
  A line of the durable file is blank, fails to parse, or holds one record. Every
  reader skips the first two kinds. The events that the table emits have no effect on
  its state and are left out; the debounced \<open>queueSave\<close> is a timer whose firing is a
  call of \<open>save\<close>.
\<close>

datatype line = Blank | Malformed | Row obj

text \<open>
  The state of a table: the resident Map \<open>data\<close>, the cache, the indices of its index
  manager, the buffers, \<open>metadata.recordCount\<close>, and the three files (\<open>None\<close>: the file
  does not exist). The metadata file holds the record count and the indexed fields.
\<close>

record table =
  data :: "(jsval \<times> obj) list"
  cache :: cache
  indexManager :: indices
  pendingWrites :: "obj list"
  pendingUpdates :: "(jsval \<times> obj) list"
  pendingDeletes :: "jsval list"
  deletedIds :: "jsval list"
  recordCount :: nat
  filePath :: "line list option"
  tempPath :: "line list option"
  metaPath :: "(nat \<times> string list) option"

definition newTable :: "nat \<Rightarrow> table" where
  "newTable cacheSize =
     \<lparr>data = [], cache = cache_new cacheSize, indexManager = [], pendingWrites = [],
      pendingUpdates = [], pendingDeletes = [], deletedIds = [], recordCount = 0,
      filePath = None, tempPath = None, metaPath = None\<rparr>"

text \<open>The streamed point lookup of \<open>loadRecordById\<close>: the first line holding the id.\<close>

fun findLine :: "jsval \<Rightarrow> line list \<Rightarrow> obj option" where
  "findLine rid [] = None"
| "findLine rid (Row record # rest) =
     (if getProp record ''_id'' = rid then Some record else findLine rid rest)"
| "findLine rid (_ # rest) = findLine rid rest"

definition loadRecordById :: "jsval \<Rightarrow> table \<Rightarrow> obj option \<times> table" where
  "loadRecordById rid t =
     (if set_has (deletedIds t) rid \<or> set_has (pendingDeletes t) rid then (None, t)
      else if map_has (pendingUpdates t) rid then (map_get (pendingUpdates t) rid, t)
      else if map_has (data t) rid then (map_get (data t) rid, t)
      else if cache_has (cache t) rid then
        (let (r, c) = cache_get (cache t) rid in (r, t\<lparr>cache := c\<rparr>))
      else (case filePath t of
              None \<Rightarrow> (None, t)
            | Some ls \<Rightarrow>
                (case findLine rid ls of
                   None \<Rightarrow> (None, t)
                 | Some record \<Rightarrow> (Some record, t\<lparr>cache := cache_set rid record (cache t)\<rparr>))))"

definition get_tbl :: "jsval \<Rightarrow> table \<Rightarrow> obj option \<times> table" where
  "get_tbl rid t =
     (if set_has (deletedIds t) rid \<or> set_has (pendingDeletes t) rid then (None, t)
      else if map_has (pendingUpdates t) rid then (map_get (pendingUpdates t) rid, t)
      else if cache_has (cache t) rid then
        (let (r, c) = cache_get (cache t) rid in (r, t\<lparr>cache := c\<rparr>))
      else if map_has (data t) rid then
        (case map_get (data t) rid of
           Some record \<Rightarrow> (Some record, t\<lparr>cache := cache_set rid record (cache t)\<rparr>)
         | None \<Rightarrow> (None, t))
      else loadRecordById rid t)"


text \<open>
  \<open>insert\<close>: the generated identifier and the clock reading are parameters. When the
  batch is full the source starts \<open>flushPendingWrites\<close>, which changes the state only
  after its file append has completed; that completion is a call of
  \<open>flushPendingWrites\<close> below.
\<close>

definition fullRecord :: "obj \<Rightarrow> jsval \<Rightarrow> string \<Rightarrow> obj" where
  "fullRecord record uuid timestamp =
     (let rid = js_or (js_or (getProp record ''id'') (getProp record ''_id'')) uuid
      in map_set ''_modified'' (Str timestamp)
           (map_set ''_created'' (Str timestamp) (map_set ''_id'' rid record)))"

definition insert_tbl :: "obj \<Rightarrow> jsval \<Rightarrow> string \<Rightarrow> table \<Rightarrow> obj \<times> table" where
  "insert_tbl record uuid timestamp t =
     (let full = fullRecord record uuid timestamp;
          rid = getProp full ''_id''
      in (full,
          t\<lparr>cache := cache_set rid full (cache t),
            indexManager := updateIndices rid None (Some full) (indexManager t),
            deletedIds := set_delete rid (deletedIds t),
            pendingDeletes := set_delete rid (pendingDeletes t),
            pendingWrites := pendingWrites t @ [full]\<rparr>))"

definition update_tbl :: "jsval \<Rightarrow> obj \<Rightarrow> string \<Rightarrow> table \<Rightarrow> obj option \<times> table" where
  "update_tbl rid updates timestamp t =
     (case get_tbl rid t of
        (None, t1) \<Rightarrow> (None, t1)
      | (Some record, t1) \<Rightarrow>
          (let oldRecord = (case map_get (data t1) rid of Some d \<Rightarrow> d | None \<Rightarrow> record);
               updated = map_set ''_modified'' (Str timestamp)
                           (map_set ''_created'' (getProp record ''_created'')
                              (map_set ''_id'' rid (spread record updates)))
           in (Some updated,
               t1\<lparr>pendingUpdates := map_set rid updated (pendingUpdates t1),
                  cache := cache_set rid updated (cache t1),
                  indexManager := updateIndices rid (Some oldRecord) (Some updated) (indexManager t1)\<rparr>)))"

definition delete_tbl :: "jsval \<Rightarrow> table \<Rightarrow> bool \<times> table" where
  "delete_tbl rid t =
     (case get_tbl rid t of
        (None, t1) \<Rightarrow> (False, t1)
      | (Some record, t1) \<Rightarrow>
          (True,
           t1\<lparr>cache := cache_delete rid (cache t1),
              indexManager := removeFromIndices rid record (indexManager t1),
              pendingDeletes := set_add rid (pendingDeletes t1)\<rparr>))"

text \<open>
  \<open>flushPendingWrites\<close> appends the buffered records to the durable file (creating it)
  and merges them into \<open>data\<close>. A failed append keeps the buffer.
\<close>

definition flushPendingWrites :: "bool \<Rightarrow> table \<Rightarrow> table" where
  "flushPendingWrites appendFails t =
     (if length (pendingWrites t) = 0 then t
      else if appendFails then t
      else t\<lparr>filePath := Some ((case filePath t of None \<Rightarrow> [] | Some ls \<Rightarrow> ls) @ map Row (pendingWrites t)),
             data := foldl (\<lambda>d record. map_set (getProp record ''_id'') record d) (data t) (pendingWrites t),
             pendingWrites := []\<rparr>)"

subsection \<open>Compaction\<close>

text \<open>
  The points at which \<open>save\<close> can meet an I/O failure: the append of the flush, the
  \<open>stat\<close> of the durable file, the read of the durable file, the write stream of the
  temporary file, the rename, and the write of the metadata file. The \<open>unlink\<close> of the
  \<open>catch\<close> block is taken to succeed.

  A failure inside the \<open>try\<close> block is thrown to the caller. The write stream is
  another matter: \<open>save\<close> attaches no \<open>error\<close> listener to it, so a failure of the
  stream is an \<open>error\<close> event that nothing handles, and the process ends. That is the
  outcome \<open>Terminated\<close>: nothing is thrown to a caller, nothing is unlinked, and the
  files stay as they are at that moment.
\<close>

record faults =
  appendFails :: bool
  statFails :: bool
  readFails :: bool
  streamFails :: bool
  renameFails :: bool
  metaFails :: bool

definition noFaults :: faults where
  "noFaults = \<lparr>appendFails = False, statFails = False, readFails = False,
               streamFails = False, renameFails = False, metaFails = False\<rparr>"

datatype io_error = ReadFailure | RenameFailure | MetadataFailure

datatype failure = Thrown io_error | Terminated

definition substituted :: "table \<Rightarrow> jsval \<Rightarrow> obj \<Rightarrow> obj" where
  "substituted t rid record = (case map_get (pendingUpdates t) rid of Some u \<Rightarrow> u | None \<Rightarrow> record)"

definition markedDeleted :: "table \<Rightarrow> jsval \<Rightarrow> bool" where
  "markedDeleted t rid = (set_has (pendingDeletes t) rid \<or> set_has (deletedIds t) rid)"

text \<open>The pass over the lines of the durable file, with \<open>processedIds\<close> and the lines written so far.\<close>

fun compactFilePass :: "table \<Rightarrow> line list \<Rightarrow> jsval list \<Rightarrow> line list \<Rightarrow> jsval list \<times> line list" where
  "compactFilePass t [] processedIds out = (processedIds, out)"
| "compactFilePass t (Row record # rest) processedIds out =
     (let rid = getProp record ''_id'' in
      if \<not> set_has processedIds rid then
        (let processedIds' = set_add rid processedIds in
         if markedDeleted t rid then compactFilePass t rest processedIds' out
         else compactFilePass t rest processedIds' (out @ [Row (substituted t rid record)]))
      else compactFilePass t rest processedIds out)"
| "compactFilePass t (_ # rest) processedIds out = compactFilePass t rest processedIds out"

text \<open>The pass over the entries of the resident Map.\<close>

fun compactResidentPass :: "table \<Rightarrow> (jsval \<times> obj) list \<Rightarrow> jsval list \<Rightarrow> line list \<Rightarrow> line list" where
  "compactResidentPass t [] processedIds out = out"
| "compactResidentPass t ((rid, record) # rest) processedIds out =
     (if \<not> set_has processedIds rid \<and> \<not> set_has (pendingDeletes t) rid \<and> \<not> set_has (deletedIds t) rid
      then compactResidentPass t rest processedIds (out @ [Row (substituted t rid record)])
      else compactResidentPass t rest processedIds out)"

text \<open>
  \<open>fs.stat(filePath).catch(() => null)\<close>: the durable file as compaction sees it. A
  \<open>stat\<close> that fails, for whatever reason, counts as a file that does not exist.
\<close>

definition statDurable :: "bool \<Rightarrow> table \<Rightarrow> line list option" where
  "statDurable statFailed t = (if statFailed then None else filePath t)"

definition compacted :: "line list option \<Rightarrow> table \<Rightarrow> line list" where
  "compacted durable t =
     (let (processedIds, out) =
            (case durable of None \<Rightarrow> ([], []) | Some ls \<Rightarrow> compactFilePass t ls [] [])
      in compactResidentPass t (data t) processedIds out)"

definition saveMetadata :: "table \<Rightarrow> table" where
  "saveMetadata t =
     t\<lparr>recordCount := length (data t),
       metaPath := Some (length (data t), map fst (indexManager t))\<rparr>"

text \<open>
  The steps of \<open>save\<close> after the flush: the write stream creates the temporary file, the
  two passes write into it, the rename puts it in the place of the durable file, and
  the buffers are merged into \<open>data\<close> and cleared. \<open>unlinkTemp\<close> is the \<open>catch\<close> block.
\<close>

definition createTemp :: "table \<Rightarrow> table" where
  "createTemp t = t\<lparr>tempPath := Some []\<rparr>"

definition writeTemp :: "line list option \<Rightarrow> table \<Rightarrow> table" where
  "writeTemp durable t = t\<lparr>tempPath := Some (compacted durable t)\<rparr>"

definition renameTemp :: "table \<Rightarrow> table" where
  "renameTemp t = t\<lparr>filePath := tempPath t, tempPath := None\<rparr>"

definition unlinkTemp :: "table \<Rightarrow> table" where
  "unlinkTemp t = t\<lparr>tempPath := None\<rparr>"

definition mergePending :: "table \<Rightarrow> table" where
  "mergePending t =
     (let merged = foldl (\<lambda>d (rid, record). map_set rid record d) (data t) (pendingUpdates t);
          purged = foldl (\<lambda>d rid. map_delete rid d) merged (pendingDeletes t)
      in t\<lparr>data := purged, pendingUpdates := [], pendingDeletes := [], deletedIds := []\<rparr>)"

text \<open>
  \<open>save\<close>. Whether \<open>needsCompaction\<close> holds depends on the clock and on a floating-point
  product; its outcome is the parameter \<open>needs\<close>. A failure that the \<open>try\<close> block
  catches unlinks the temporary file and is thrown again.
\<close>

definition save :: "faults \<Rightarrow> bool \<Rightarrow> table \<Rightarrow> (failure + unit) \<times> table" where
  "save f needs t0 =
     (let t = flushPendingWrites (appendFails f) t0 in
      if \<not> needs \<and> length (pendingUpdates t) = 0 \<and> length (pendingDeletes t) = 0
      then (Inr (), t)
      else
        (let t1 = createTemp t;
             durable = statDurable (statFails f) t1 in
         if durable \<noteq> None \<and> readFails f then (Inl (Thrown ReadFailure), unlinkTemp t1)
         else
           (let t2 = writeTemp durable t1 in
            if streamFails f then (Inl Terminated, t2)
            else if renameFails f then (Inl (Thrown RenameFailure), unlinkTemp t2)
            else
              (let t3 = mergePending (renameTemp t2) in
               if metaFails f
               then (Inl (Thrown MetadataFailure), unlinkTemp (t3\<lparr>recordCount := length (data t3)\<rparr>))
               else (Inr (), saveMetadata t3)))))"

subsection \<open>Index management and counting\<close>

fun buildIndicesFromFile :: "line list \<Rightarrow> table \<Rightarrow> table" where
  "buildIndicesFromFile [] t = t"
| "buildIndicesFromFile (Row record # rest) t =
     (if \<not> set_has (deletedIds t) (getProp record ''_id'')
      then buildIndicesFromFile rest
             (t\<lparr>indexManager := updateIndices (getProp record ''_id'') None (Some record) (indexManager t)\<rparr>)
      else buildIndicesFromFile rest t)"
| "buildIndicesFromFile (_ # rest) t = buildIndicesFromFile rest t"

text \<open>
  \<open>createIndex\<close> of the table builds the index from the resident Map and, when the table
  is not fully resident, starts a pass over the file, taken here as completed.
\<close>

definition createIndex_tbl :: "(string \<Rightarrow> bool) \<Rightarrow> string \<Rightarrow> table \<Rightarrow> table" where
  "createIndex_tbl isDate field t =
     (let t1 = t\<lparr>indexManager := createIndex isDate field (data t) (indexManager t)\<rparr>
      in if length (data t1) < recordCount t1
         then buildIndicesFromFile (case filePath t1 of None \<Rightarrow> [] | Some ls \<Rightarrow> ls) t1
         else t1)"

definition dropIndex_tbl :: "string \<Rightarrow> table \<Rightarrow> table" where
  "dropIndex_tbl field t = t\<lparr>indexManager := dropIndex field (indexManager t)\<rparr>"

text \<open>The unconditional \<open>count()\<close>.\<close>

definition count_tbl :: "table \<Rightarrow> int" where
  "count_tbl t =
     (let deletedCount = int (length (deletedIds t)) + int (length (pendingDeletes t)) in
      if length (data t) = recordCount t \<or> recordCount t = 0
      then int (length (data t)) + int (length (pendingWrites t)) - deletedCount
      else max 0 (int (recordCount t) + int (length (pendingWrites t)) - deletedCount))"

section \<open>The query engine\<close>

text \<open>
  The value of a clause key is a literal or an operator object. An operator that is
  not given is \<open>undefined\<close>. The pattern operator \<open>$regex\<close> is outside the model.
\<close>

record operator =
  op_eq :: jsval
  op_ne :: jsval
  op_gt :: jsval
  op_gte :: jsval
  op_lt :: jsval
  op_lte :: jsval
  op_in :: "jsval list option"
  op_nin :: "jsval list option"
  op_exists :: "bool option"

definition noOps :: operator where
  "noOps = \<lparr>op_eq = Undefined, op_ne = Undefined, op_gt = Undefined, op_gte = Undefined,
            op_lt = Undefined, op_lte = Undefined, op_in = None, op_nin = None, op_exists = None\<rparr>"

datatype cvalue = Lit jsval | Ops operator

type_synonym condition = "(string \<times> cvalue) list"

datatype clause = Fn "obj \<Rightarrow> bool" | Cond condition

datatype ctype = Range | Exact

record query =
  conditions :: "(obj \<Rightarrow> bool) list"
  indexableConditions :: "(string \<times> operator \<times> ctype) list"
  nonIndexableConditions :: "(obj \<Rightarrow> bool) list"
  sortField :: "string option"
  sortOrder :: string
  limitCount :: "nat option"
  skipCount :: nat
  selectedFields :: "string list option"

definition newQuery :: query where
  "newQuery = \<lparr>conditions = [], indexableConditions = [], nonIndexableConditions = [],
               sortField = None, sortOrder = ''asc'', limitCount = None, skipCount = 0,
               selectedFields = None\<rparr>"

definition evaluateOperator :: "jsval \<Rightarrow> operator \<Rightarrow> bool" where
  "evaluateOperator fieldValue operator =
     (if op_eq operator \<noteq> Undefined then fieldValue = op_eq operator
      else if op_ne operator \<noteq> Undefined then fieldValue \<noteq> op_ne operator
      else if op_gt operator \<noteq> Undefined then js_gt fieldValue (op_gt operator)
      else if op_gte operator \<noteq> Undefined then js_ge fieldValue (op_gte operator)
      else if op_lt operator \<noteq> Undefined then js_lt fieldValue (op_lt operator)
      else if op_lte operator \<noteq> Undefined then js_le fieldValue (op_lte operator)
      else (case op_in operator of
              Some vs \<Rightarrow> fieldValue \<in> set vs
            | None \<Rightarrow>
               (case op_nin operator of
                  Some vs \<Rightarrow> fieldValue \<notin> set vs
                | None \<Rightarrow>
                   (case op_exists operator of
                      Some b \<Rightarrow> ((fieldValue \<noteq> Undefined) = b)
                    | None \<Rightarrow> True))))"

fun buildCondition :: "condition \<Rightarrow> obj \<Rightarrow> bool" where
  "buildCondition [] record = True"
| "buildCondition ((key, Ops operator) # rest) record =
     (if \<not> evaluateOperator (getProp record key) operator then False
      else buildCondition rest record)"
| "buildCondition ((key, Lit v) # rest) record =
     (if getProp record key \<noteq> v then False else buildCondition rest record)"

fun analyzeCondition :: "indices \<Rightarrow> condition \<Rightarrow> query \<Rightarrow> query" where
  "analyzeCondition ix [] q = q"
| "analyzeCondition ix ((key, v) # rest) q =
     analyzeCondition ix rest
       (if hasIndex ix key then
          (case v of
             Ops operator \<Rightarrow>
               (let hasRangeOp = (defined (op_gt operator) \<or> defined (op_gte operator) \<or>
                                  defined (op_lt operator) \<or> defined (op_lte operator))
                in if getIndexType ix key = Some TSorted \<and> hasRangeOp
                   then q\<lparr>indexableConditions := indexableConditions q @ [(key, operator, Range)]\<rparr>
                   else if defined (op_eq operator) \<or> (case op_in operator of Some vs \<Rightarrow> True | None \<Rightarrow> False)
                   then q\<lparr>indexableConditions := indexableConditions q @ [(key, operator, Exact)]\<rparr>
                   else q\<lparr>nonIndexableConditions :=
                            nonIndexableConditions q @ [buildCondition [(key, v)]]\<rparr>)
           | Lit l \<Rightarrow>
               q\<lparr>indexableConditions :=
                    indexableConditions q @ [(key, noOps\<lparr>op_eq := l\<rparr>, Exact)]\<rparr>)
        else q\<lparr>nonIndexableConditions := nonIndexableConditions q @ [buildCondition [(key, v)]]\<rparr>)"

definition where_q :: "indices \<Rightarrow> clause \<Rightarrow> query \<Rightarrow> query" where
  "where_q ix c q =
     (case c of
        Fn p \<Rightarrow> q\<lparr>conditions := conditions q @ [p],
                   nonIndexableConditions := nonIndexableConditions q @ [p]\<rparr>
      | Cond obj \<Rightarrow> analyzeCondition ix obj (q\<lparr>conditions := conditions q @ [buildCondition obj]\<rparr>))"

definition and_q :: "indices \<Rightarrow> clause \<Rightarrow> query \<Rightarrow> query" where
  "and_q ix c q = where_q ix c q"

definition or_q :: "clause \<Rightarrow> query \<Rightarrow> query" where
  "or_q c q =
     (if conditions q = [] then q
      else (let prevCondition = last (conditions q);
                cond = (case c of Cond obj \<Rightarrow> buildCondition obj | Fn p \<Rightarrow> p);
                orCondition = (\<lambda>record. prevCondition record \<or> cond record)
            in q\<lparr>conditions := butlast (conditions q) @ [orCondition],
                 nonIndexableConditions := nonIndexableConditions q @ [orCondition]\<rparr>))"

definition lower :: "char \<Rightarrow> char" where
  "lower c = (if (65::nat) \<le> of_char c \<and> of_char c \<le> (90::nat)
              then char_of (of_char c + (32::nat)) else c)"

definition sort_q :: "string \<Rightarrow> string \<Rightarrow> query \<Rightarrow> query" where
  "sort_q field order q = q\<lparr>sortField := Some field, sortOrder := map lower order\<rparr>"

definition limit_q :: "nat \<Rightarrow> query \<Rightarrow> query" where
  "limit_q n q = q\<lparr>limitCount := Some n\<rparr>"

definition skip_q :: "nat \<Rightarrow> query \<Rightarrow> query" where
  "skip_q n q = q\<lparr>skipCount := n\<rparr>"

definition select_q :: "string list \<Rightarrow> query \<Rightarrow> query" where
  "select_q fieldNames q = q\<lparr>selectedFields := Some fieldNames\<rparr>"

subsection \<open>The candidate set\<close>

definition conditionIds :: "indices \<Rightarrow> string \<times> operator \<times> ctype \<Rightarrow> jsval list" where
  "conditionIds ix c =
     (case c of (field, condition, ty) \<Rightarrow>
        if ty = Range then
          (let mn = (if op_gt condition \<noteq> Undefined then op_gt condition else op_gte condition);
               mx = (if op_lt condition \<noteq> Undefined then op_lt condition else op_lte condition);
               includeMin = (op_gte condition \<noteq> Undefined);
               includeMax = (op_lte condition \<noteq> Undefined)
           in case findByRange ix field mn mx includeMin includeMax of
                Some rangeIds \<Rightarrow> rangeIds
              | None \<Rightarrow> [])
        else if op_eq condition \<noteq> Undefined then
          (case findByIndex ix field (op_eq condition) of
             Some indexIds \<Rightarrow> indexIds
           | None \<Rightarrow> [])
        else (case op_in condition of
                Some vs \<Rightarrow>
                  foldl (\<lambda>ids v. case findByIndex ix field v of
                                    Some indexIds \<Rightarrow> foldl (\<lambda>s i. set_add i s) ids indexIds
                                  | None \<Rightarrow> ids) [] vs
              | None \<Rightarrow> []))"

fun candidateLoop :: "indices \<Rightarrow> (string \<times> operator \<times> ctype) list \<Rightarrow> jsval list option \<Rightarrow> jsval list option" where
  "candidateLoop ix [] candidateSet = candidateSet"
| "candidateLoop ix (c # rest) candidateSet =
     (let ids = conditionIds ix c in
      case candidateSet of
        None \<Rightarrow> candidateLoop ix rest (Some ids)
      | Some cs \<Rightarrow>
          (let intersection = filter (\<lambda>i. set_has cs i) ids
           in if length intersection = 0 then Some intersection
              else candidateLoop ix rest (Some intersection)))"

definition getIndexCandidateSet :: "indices \<Rightarrow> query \<Rightarrow> jsval list option" where
  "getIndexCandidateSet ix q =
     (if length (indexableConditions q) = 0 then None
      else candidateLoop ix (indexableConditions q) None)"

subsection \<open>Sorting\<close>

definition sortCompare :: "query \<Rightarrow> obj \<Rightarrow> obj \<Rightarrow> int" where
  "sortCompare q a b =
     (let aVal = getProp a (the (sortField q)); bVal = getProp b (the (sortField q)) in
      if aVal = bVal then 0
      else (let comparison = (if js_lt aVal bVal then -1 else 1)
            in if sortOrder q = ''asc'' then comparison else - comparison))"

definition heapCompare :: "query \<Rightarrow> obj \<Rightarrow> obj \<Rightarrow> int" where
  "heapCompare q a b =
     (let aVal = getProp a (the (sortField q)); bVal = getProp b (the (sortField q)) in
      if aVal = bVal then 0
      else (let comparison = (if js_lt aVal bVal then -1 else 1)
            in if sortOrder q = ''desc'' then comparison else - comparison))"

function bubbleUp :: "('a \<Rightarrow> 'a \<Rightarrow> int) \<Rightarrow> 'a list \<Rightarrow> nat \<Rightarrow> 'a list" where
  "bubbleUp compare heap index =
     (if index > 0 then
        (let parentIndex = (index - 1) div 2 in
         if compare (heap ! index) (heap ! parentIndex) \<ge> 0 then heap
         else bubbleUp compare (heap[index := heap ! parentIndex, parentIndex := heap ! index]) parentIndex)
      else heap)"
  by pat_completeness auto
termination
  by (relation "measure (\<lambda>(compare, heap, index). index)") auto

function bubbleDown :: "('a \<Rightarrow> 'a \<Rightarrow> int) \<Rightarrow> 'a list \<Rightarrow> nat \<Rightarrow> 'a list" where
  "bubbleDown compare heap index =
     (let left = 2 * index + 1;
          right = 2 * index + 2;
          smallest1 = (if left < length heap \<and> compare (heap ! left) (heap ! index) < 0
                       then left else index);
          smallest = (if right < length heap \<and> compare (heap ! right) (heap ! smallest1) < 0
                      then right else smallest1)
      in if smallest = index then heap
         else bubbleDown compare (heap[index := heap ! smallest, smallest := heap ! index]) smallest)"
  by pat_completeness auto
termination
  by (relation "measure (\<lambda>(compare, heap, index). length heap - index)")
     (auto split: if_splits)

text \<open>
  The selection loop of \<open>heapSort\<close>. It is entered with \<open>k \<ge> 1\<close> only, so that the heap
  is not empty once it holds \<open>k\<close> elements.
\<close>

fun heapLoop :: "('a \<Rightarrow> 'a \<Rightarrow> int) \<Rightarrow> nat \<Rightarrow> 'a list \<Rightarrow> 'a list \<Rightarrow> 'a list" where
  "heapLoop compare k [] heap = heap"
| "heapLoop compare k (x # rest) heap =
     (if length heap < k
      then heapLoop compare k rest (bubbleUp compare (heap @ [x]) (length (heap @ [x]) - 1))
      else if compare x (heap ! 0) < 0
      then heapLoop compare k rest (bubbleDown compare (heap[0 := x]) 0)
      else heapLoop compare k rest heap)"

definition heapSort :: "query \<Rightarrow> obj list \<Rightarrow> nat \<Rightarrow> obj list" where
  "heapSort q arr k =
     (let heap = heapLoop (heapCompare q) k arr [];
          sortedHeap = js_sort (\<lambda>a b. - heapCompare q a b) heap;
          n = min k (length sortedHeap)
      in take n sortedHeap @ drop n arr)"

definition sortResults :: "query \<Rightarrow> obj list \<Rightarrow> obj list" where
  "sortResults q results =
     (case limitCount q of
        Some k \<Rightarrow>
          if k \<noteq> 0 \<and> skipCount q = 0 \<and> 10 * k < length results
          then heapSort q results k
          else js_sort (sortCompare q) results
      | None \<Rightarrow> js_sort (sortCompare q) results)"

subsection \<open>Execution\<close>

fun executeWithIndex :: "jsval list \<Rightarrow> table \<Rightarrow> obj list \<Rightarrow> obj list \<times> table" where
  "executeWithIndex [] t results = (results, t)"
| "executeWithIndex (rid # rest) t results =
     (if set_has (pendingDeletes t) rid then executeWithIndex rest t results
      else (case (case map_get (pendingUpdates t) rid of
                    Some u \<Rightarrow> Some u
                  | None \<Rightarrow> map_get (data t) rid) of
              Some record \<Rightarrow> executeWithIndex rest t (results @ [record])
            | None \<Rightarrow>
                (case loadRecordById rid t of
                   (Some record, t') \<Rightarrow> executeWithIndex rest t' (results @ [record])
                 | (None, t') \<Rightarrow> executeWithIndex rest t' results)))"

text \<open>The streamed scan: \<open>maxToProcess\<close> is \<open>None\<close> for \<open>Infinity\<close>.\<close>

fun streamLoop :: "table \<Rightarrow> line list \<Rightarrow> nat option \<Rightarrow> nat \<Rightarrow> obj list \<Rightarrow> obj list" where
  "streamLoop t [] maxToProcess processedCount results = results"
| "streamLoop t (l # rest) maxToProcess processedCount results =
     (let below = (case maxToProcess of None \<Rightarrow> True | Some m \<Rightarrow> processedCount < m);
          (processedCount', results') =
            (case l of
               Row record \<Rightarrow>
                 if below \<and> \<not> set_has (pendingDeletes t) (getProp record ''_id'')
                 then (processedCount + 1,
                       results @ [case map_get (pendingUpdates t) (getProp record ''_id'') of
                                    Some u \<Rightarrow> u | None \<Rightarrow> record])
                 else (processedCount, results)
             | _ \<Rightarrow> (processedCount, results))
      in if (case maxToProcess of None \<Rightarrow> False | Some m \<Rightarrow> processedCount' \<ge> m) then results'
         else streamLoop t rest maxToProcess processedCount' results')"

definition pendingVisible :: "table \<Rightarrow> obj list" where
  "pendingVisible t =
     filter (\<lambda>record. \<not> set_has (pendingDeletes t) (getProp record ''_id'')) (pendingWrites t)"

definition streamResults :: "query \<Rightarrow> table \<Rightarrow> obj list" where
  "streamResults q t =
     (let maxToProcess = (case limitCount q of
                            None \<Rightarrow> None
                          | Some k \<Rightarrow> if k = 0 then None else Some ((k + skipCount q) * 2))
      in streamLoop t (case filePath t of None \<Rightarrow> [] | Some ls \<Rightarrow> ls) maxToProcess 0 []
         @ pendingVisible t)"

definition memoryScan :: "table \<Rightarrow> obj list" where
  "memoryScan t =
     map (\<lambda>(rid, record). case map_get (pendingUpdates t) rid of Some u \<Rightarrow> u | None \<Rightarrow> record)
       (filter (\<lambda>(rid, record). \<not> set_has (pendingDeletes t) rid) (data t))
     @ pendingVisible t"

definition projectFields :: "string list \<Rightarrow> obj list \<Rightarrow> obj list" where
  "projectFields fieldNames results =
     map (\<lambda>record. map (\<lambda>field. (field, getProp record field))
                      (filter (\<lambda>field. map_has record field) fieldNames)) results"

definition finish :: "query \<Rightarrow> obj list \<Rightarrow> obj list" where
  "finish q results0 =
     (let results1 = foldl (\<lambda>rs condition. filter condition rs) results0 (nonIndexableConditions q);
          results2 = (if sortField q \<noteq> None \<and> sortField q \<noteq> Some [] then sortResults q results1
                      else results1);
          results3 = (if skipCount q > 0 then drop (skipCount q) results2 else results2);
          results4 = (case limitCount q of None \<Rightarrow> results3 | Some k \<Rightarrow> take k results3)
      in case selectedFields q of
           None \<Rightarrow> results4
         | Some fieldNames \<Rightarrow> projectFields fieldNames results4)"

definition execute :: "query \<Rightarrow> table \<Rightarrow> obj list \<times> table" where
  "execute q t =
     (case getIndexCandidateSet (indexManager t) q of
        Some candidateSet \<Rightarrow>
          if length candidateSet = 0 then ([], t)
          else (let (results, t') = executeWithIndex candidateSet t [] in (finish q results, t'))
      | None \<Rightarrow>
          if length (data t) < recordCount t then (finish q (streamResults q t), t)
          else (finish q (memoryScan t), t))"

text \<open>\<open>find\<close> and \<open>all\<close> of the table build a query on the table's index manager.\<close>

definition find_tbl :: "clause \<Rightarrow> table \<Rightarrow> query" where
  "find_tbl c t = where_q (indexManager t) c newQuery"

definition all_q :: query where
  "all_q = newQuery"

subsection \<open>Derived operations\<close>

definition first_q :: "query \<Rightarrow> table \<Rightarrow> obj option \<times> table" where
  "first_q q t =
     (let (results, t') = execute (q\<lparr>limitCount := Some 1\<rparr>) t
      in (if length results > 0 then Some (results ! 0) else None, t'))"

definition count_q :: "query \<Rightarrow> table \<Rightarrow> nat \<times> table" where
  "count_q q t =
     (case getIndexCandidateSet (indexManager t) q of
        Some candidateSet \<Rightarrow>
          if length (nonIndexableConditions q) = 0
          then (length (filter (\<lambda>rid. \<not> set_has (pendingDeletes t) rid) candidateSet), t)
          else (let (results, t') = execute q t in (length results, t'))
      | None \<Rightarrow> (let (results, t') = execute q t in (length results, t')))"

definition distinct_q :: "string \<Rightarrow> query \<Rightarrow> table \<Rightarrow> jsval list \<times> table" where
  "distinct_q field q t =
     (let (results, t') = execute q t
      in (foldl (\<lambda>vs record. let v = getFieldValue record field in
                               if v \<noteq> Undefined then set_add v vs else vs) [] results, t'))"

text \<open>
  Aggregation. The numbers that \<open>aggregate\<close> produces are exact fractions (the source
  divides in floating point) and the two infinities; \<open>NaN\<close> is what \<open>Math.min\<close> and
  \<open>Math.max\<close> make of a text. An operation key that is not given and one that is the
  empty string are both falsy: the empty string stands for either. A sum over a text
  value is a string concatenation in the source and is outside the model (\<open>None\<close>).
\<close>

datatype jsnum = Fin rat | PosInf | NegInf | NaN

record aggOp =
  agg_sum :: string
  agg_avg :: string
  agg_min :: string
  agg_max :: string
  agg_count :: bool

definition noAgg :: aggOp where
  "noAgg = \<lparr>agg_sum = [], agg_avg = [], agg_min = [], agg_max = [], agg_count = False\<rparr>"

fun addend :: "jsval \<Rightarrow> int option" where
  "addend (Num n) = Some n"
| "addend (Str s) = (if s = [] then Some 0 else None)"
| "addend Undefined = Some 0"

fun reduceSum :: "string \<Rightarrow> obj list \<Rightarrow> int \<Rightarrow> int option" where
  "reduceSum field [] acc = Some acc"
| "reduceSum field (r # rest) acc =
     (case addend (getProp r field) of
        None \<Rightarrow> None
      | Some n \<Rightarrow> reduceSum field rest (acc + n))"

fun orInfinity :: "jsnum \<Rightarrow> jsval \<Rightarrow> jsnum" where
  "orInfinity dflt (Num n) = (if n \<noteq> 0 then Fin (of_int n) else dflt)"
| "orInfinity dflt (Str s) = (if s \<noteq> [] then NaN else dflt)"
| "orInfinity dflt Undefined = dflt"

fun num_lt :: "jsnum \<Rightarrow> jsnum \<Rightarrow> bool" where
  "num_lt (Fin a) (Fin b) = (a < b)"
| "num_lt NegInf PosInf = True"
| "num_lt NegInf (Fin b) = True"
| "num_lt (Fin a) PosInf = True"
| "num_lt _ _ = False"

fun mathMin :: "jsnum list \<Rightarrow> jsnum" where
  "mathMin [] = PosInf"
| "mathMin (x # xs) =
     (let m = mathMin xs in
      if x = NaN \<or> m = NaN then NaN else if num_lt x m then x else m)"

fun mathMax :: "jsnum list \<Rightarrow> jsnum" where
  "mathMax [] = NegInf"
| "mathMax (x # xs) =
     (let m = mathMax xs in
      if x = NaN \<or> m = NaN then NaN else if num_lt m x then x else m)"

definition aggregateOne :: "aggOp \<Rightarrow> obj list \<Rightarrow> jsnum option option" where
  "aggregateOne operation results =
     (if agg_sum operation \<noteq> [] then
        Some (map_option (\<lambda>n. Fin (of_int n)) (reduceSum (agg_sum operation) results 0))
      else if agg_avg operation \<noteq> [] then
        Some (map_option (\<lambda>n. if length results > 0
                                then Fin (of_int n / of_nat (length results)) else Fin 0)
                (reduceSum (agg_avg operation) results 0))
      else if agg_min operation \<noteq> [] then
        Some (Some (mathMin (map (\<lambda>r. orInfinity PosInf (getProp r (agg_min operation))) results)))
      else if agg_max operation \<noteq> [] then
        Some (Some (mathMax (map (\<lambda>r. orInfinity NegInf (getProp r (agg_max operation))) results)))
      else if agg_count operation then Some (Some (Fin (of_nat (length results))))
      else None)"

definition aggregate :: "(string \<times> aggOp) list \<Rightarrow> query \<Rightarrow> table \<Rightarrow> (string \<times> jsnum option) list \<times> table" where
  "aggregate operations q t =
     (let (results, t') = execute q t
      in (foldl (\<lambda>aggregated (key, operation).
                   case aggregateOne operation results of
                     None \<Rightarrow> aggregated
                   | Some v \<Rightarrow> map_set key v aggregated) [] operations, t'))"

section \<open>Compaction as the specification words it\<close>

text \<open>
  The records of the durable file in order; the identifier of a record; the records
  that are the first of their identifier in a list, each at its own position.
\<close>

fun rows :: "line list \<Rightarrow> obj list" where
  "rows [] = []"
| "rows (Row record # rest) = record # rows rest"
| "rows (_ # rest) = rows rest"

definition recId :: "obj \<Rightarrow> jsval" where
  "recId record = getProp record ''_id''"

definition firstOccurrences :: "obj list \<Rightarrow> obj list" where
  "firstOccurrences rs =
     map snd (filter (\<lambda>(i, r). recId r \<notin> recId ` set (take i rs)) (enumerate 0 rs))"

text \<open>
  The output of compaction in the words of the specification: one line for the first
  occurrence of each id of the durable file, without the ids marked deleted, holding
  the pending update of the id if there is one and the line's own value otherwise;
  then the resident records whose id the file does not hold, under the same
  omission and substitution.
\<close>

definition compaction_spec :: "table \<Rightarrow> line list" where
  "compaction_spec t =
     (let rs = rows (case filePath t of None \<Rightarrow> [] | Some ls \<Rightarrow> ls);
          deleted = set (pendingDeletes t) \<union> set (deletedIds t);
          written = (\<lambda>rid r. Row (case map_of (pendingUpdates t) rid of Some u \<Rightarrow> u | None \<Rightarrow> r))
      in map (\<lambda>r. written (recId r) r) (filter (\<lambda>r. recId r \<notin> deleted) (firstOccurrences rs))
         @ map (\<lambda>(rid, r). written rid r)
             (filter (\<lambda>(rid, r). rid \<notin> recId ` set rs \<and> rid \<notin> deleted) (data t)))"

section \<open>Concrete tables and queries\<close>

definition noDates :: "string \<Rightarrow> bool" where
  "noDates s = False"

definition person :: "string \<Rightarrow> int \<Rightarrow> obj" where
  "person name age = [(''_id'', Str name), (''age'', Num age)]"

text \<open>
  One flushed record with a numeric \<open>age\<close>, a (sorted) index on \<open>age\<close>, then two inserts
  with equal \<open>age\<close> whose ids are not in ascending order, then an update of the second.
\<close>

definition tiesTable :: table where
  "tiesTable =
     (let t1 = snd (insert_tbl (person ''m'' 1) (Str ''u'') ''T1'' (newTable 1000));
          t2 = createIndex_tbl noDates ''age'' (flushPendingWrites False t1);
          t3 = snd (insert_tbl (person ''b'' 5) (Str ''u'') ''T2'' t2);
          t4 = snd (insert_tbl (person ''a'' 5) (Str ''u'') ''T3'' t3)
      in snd (update_tbl (Str ''a'') [(''age'', Num 7)] ''T4'' t4))"

text \<open>A record inserted into a new table, and an index created afterwards.\<close>

definition lateIndexTable :: table where
  "lateIndexTable =
     createIndex_tbl noDates ''f''
       (snd (insert_tbl [(''_id'', Num 1), (''f'', Num 5)] (Str ''u'') ''T1'' (newTable 1000)))"

definition eqClause :: "string \<Rightarrow> jsval \<Rightarrow> clause" where
  "eqClause field v = Cond [(field, Ops (noOps\<lparr>op_eq := v\<rparr>))]"

definition twoRecords :: table where
  "twoRecords =
     snd (insert_tbl [(''_id'', Num 2), (''x'', Num 2)] (Str ''u'') ''T2''
       (snd (insert_tbl [(''_id'', Num 1), (''x'', Num 1)] (Str ''u'') ''T1'' (newTable 1000))))"

definition elevenRecords :: "obj list" where
  "elevenRecords = map (\<lambda>n. [(''_id'', Num n), (''v'', Num n)]) [1, 2, 3, 4, 5, 6, 7, 8, 9, 10, 11]"

definition smallestFirst :: query where
  "smallestFirst = limit_q 1 (sort_q ''v'' ''asc'' newQuery)"

text \<open>The same id inserted twice.\<close>

definition reinserted :: table where
  "reinserted =
     snd (insert_tbl [(''_id'', Str ''a''), (''v'', Num 2)] (Str ''u'') ''T2''
       (snd (insert_tbl [(''_id'', Str ''a''), (''v'', Num 1)] (Str ''u'') ''T1'' (newTable 1000))))"

text \<open>A record inserted and then updated, the update still pending.\<close>

definition updatedTable :: table where
  "updatedTable =
     snd (update_tbl (Num 1) [(''x'', Num 2)] ''T2''
       (snd (insert_tbl [(''_id'', Num 1), (''x'', Num 1)] (Str ''u'') ''T1'' (newTable 1000))))"

text \<open>
  A table whose durable file holds the id \<open>a\<close> twice, with a pending update of \<open>b\<close>, a
  pending delete of \<open>c\<close>, and the resident record \<open>d\<close> that the file does not hold.
\<close>

definition compactExample :: table where
  "compactExample =
     (newTable 1000)\<lparr>
        data := [(Str ''a'', [(''_id'', Str ''a''), (''v'', Num 2)]),
                 (Str ''b'', [(''_id'', Str ''b''), (''v'', Num 1)]),
                 (Str ''c'', [(''_id'', Str ''c''), (''v'', Num 1)]),
                 (Str ''d'', [(''_id'', Str ''d''), (''v'', Num 1)])],
        filePath := Some [Row [(''_id'', Str ''a''), (''v'', Num 1)], Blank,
                          Row [(''_id'', Str ''b''), (''v'', Num 1)],
                          Row [(''_id'', Str ''a''), (''v'', Num 2)], Malformed,
                          Row [(''_id'', Str ''c''), (''v'', Num 1)]],
        pendingUpdates := [(Str ''b'', [(''_id'', Str ''b''), (''v'', Num 9)])],
        pendingDeletes := [Str ''c''],
        recordCount := 4\<rparr>"

text \<open>
  A table of which nothing is resident: two records in the durable file, none in
  \<open>data\<close>, and a pending delete.
\<close>

definition nonResidentExample :: table where
  "nonResidentExample =
     (newTable 1)\<lparr>
        filePath := Some [Row [(''_id'', Str ''a''), (''v'', Num 1)],
                          Row [(''_id'', Str ''b''), (''v'', Num 1)]],
        pendingDeletes := [Str ''b''],
        recordCount := 2\<rparr>"




section \<open>The index manager on equal values\<close>

text \<open>
  Claim C1 requires \<open>findByIndex\<close> and \<open>findByRange\<close> to return exactly the ids whose
  current value matches. On \<open>tiesTable\<close> the index on \<open>age\<close> is sorted and the current
  \<open>age\<close> of \<open>a\<close> is 7, yet both lookups for 5 still return \<open>a\<close>: \<open>binarySearch\<close> expects
  equal values to be ordered by id, \<open>findInsertPosition\<close> orders them by arrival, so the
  old entry of \<open>a\<close> is not found and stays in the array.
\<close>

theorem sorted_index_keeps_stale_entry:
  "getIndexType (indexManager tiesTable) ''age'' = Some TSorted
   \<and> map_option (\<lambda>r. getProp r ''age'') (fst (get_tbl (Str ''a'') tiesTable)) = Some (Num 7)
   \<and> findByIndex (indexManager tiesTable) ''age'' (Num 5) = Some [Str ''b'', Str ''a'']
   \<and> findByRange (indexManager tiesTable) ''age'' (Num 5) (Num 5) True True
        = Some [Str ''b'', Str ''a'']"
  by code_simp

section \<open>Indexed lookup against the scan\<close>

text \<open>
  Claim C2 requires an equality query on an indexed field to return the records that
  the scan without the index returns. On \<open>lateIndexTable\<close> the index was built from the
  resident Map alone and misses the record still in \<open>pendingWrites\<close>: the indexed query
  for \<open>f = 5\<close> is empty, the same query after dropping the index returns the record.
\<close>

theorem indexed_find_misses_pending_write:
  "fst (execute (find_tbl (eqClause ''f'' (Num 5)) lateIndexTable) lateIndexTable) = []
   \<and> fst (execute (find_tbl (eqClause ''f'' (Num 5)) (dropIndex_tbl ''f'' lateIndexTable))
             (dropIndex_tbl ''f'' lateIndexTable))
       = [[(''_id'', Num 1), (''f'', Num 5), (''_created'', Str ''T1''), (''_modified'', Str ''T1'')]]"
  by code_simp

section \<open>Compaction\<close>

lemma set_set_add: "set (set_add x s) = insert x (set s)"
  by (auto simp: set_add_def)

lemma rows_append: "rows (xs @ ys) = rows xs @ rows ys"
  by (induction xs rule: rows.induct) auto

lemma firstOccurrences_snoc:
  "firstOccurrences (rs @ [r]) =
     firstOccurrences rs @ (if recId r \<in> recId ` set rs then [] else [r])"
proof -
  have "filter (\<lambda>(i, x). recId x \<notin> recId ` set (take i (rs @ [r]))) (enumerate 0 rs)
      = filter (\<lambda>(i, x). recId x \<notin> recId ` set (take i rs)) (enumerate 0 rs)"
    by (rule filter_cong) (auto simp: in_set_enumerate_eq)
  then show ?thesis
    by (simp add: firstOccurrences_def enumerate_append_eq)
qed

lemma compactFilePass_append:
  "compactFilePass t (xs @ ys) p out =
     (case compactFilePass t xs p out of (p', out') \<Rightarrow> compactFilePass t ys p' out')"
  by (induction t xs p out rule: compactFilePass.induct) (auto simp: Let_def)

text \<open>
  The file pass, by induction on the lines read so far: \<open>processedIds\<close> holds the ids of
  the rows read, and the output is the first occurrences that are not deleted.
\<close>

lemma compactFilePass_spec:
  "compactFilePass t ls [] [] = (p, out) \<Longrightarrow>
     set p = recId ` set (rows ls) \<and>
     out = map (\<lambda>r. Row (substituted t (recId r) r))
             (filter (\<lambda>r. \<not> markedDeleted t (recId r)) (firstOccurrences (rows ls)))"
proof (induction ls arbitrary: p out rule: rev_induct)
  case Nil
  then show ?case by (simp add: firstOccurrences_def)
next
  case (snoc l ls)
  obtain p0 out0 where run: "compactFilePass t ls [] [] = (p0, out0)"
    by (cases "compactFilePass t ls [] []")
  from snoc.IH[OF run] have p0: "set p0 = recId ` set (rows ls)"
    and out0: "out0 = map (\<lambda>r. Row (substituted t (recId r) r))
             (filter (\<lambda>r. \<not> markedDeleted t (recId r)) (firstOccurrences (rows ls)))"
    by simp_all
  from snoc.prems run have step: "compactFilePass t [l] p0 out0 = (p, out)"
    by (simp add: compactFilePass_append)
  show ?case
  proof (cases l)
    case (Row r0)
    with step p0 out0 show ?thesis
      by (auto simp: rows_append firstOccurrences_snoc Let_def set_has_def set_set_add recId_def
               split: if_splits)
  next
    case Blank
    with step p0 out0 show ?thesis by (simp add: rows_append)
  next
    case Malformed
    with step p0 out0 show ?thesis by (simp add: rows_append)
  qed
qed

lemma compactResidentPass_spec:
  "compactResidentPass t d p out =
     out @ map (\<lambda>(rid, r). Row (substituted t rid r))
             (filter (\<lambda>(rid, r). rid \<notin> set p \<and> \<not> markedDeleted t rid) d)"
  by (induction d arbitrary: out) (auto simp: set_has_def markedDeleted_def)

lemma compacted_spec: "compacted (filePath t) t = compaction_spec t"
proof -
  obtain p out where run:
    "compactFilePass t (case filePath t of None \<Rightarrow> [] | Some ls \<Rightarrow> ls) [] [] = (p, out)"
    by (cases "compactFilePass t (case filePath t of None \<Rightarrow> [] | Some ls \<Rightarrow> ls) [] []")
  note spec = compactFilePass_spec[OF run]
  have c: "compacted (filePath t) t = compactResidentPass t (data t) p out"
    using run by (cases "filePath t") (auto simp: compacted_def)
  show ?thesis
    unfolding c compactResidentPass_spec compaction_spec_def Let_def
    using spec by (simp add: substituted_def markedDeleted_def set_has_def map_get_def)
qed

lemma flush_fields [simp]:
  "pendingUpdates (flushPendingWrites b t) = pendingUpdates t"
  "pendingDeletes (flushPendingWrites b t) = pendingDeletes t"
  "deletedIds (flushPendingWrites b t) = deletedIds t"
  by (simp_all add: flushPendingWrites_def)

lemma compactFilePass_tempPath:
  "compactFilePass (t\<lparr>tempPath := x\<rparr>) ls p out = compactFilePass t ls p out"
  by (induction t ls p out rule: compactFilePass.induct)
     (simp_all add: markedDeleted_def substituted_def Let_def)

lemma compactResidentPass_tempPath:
  "compactResidentPass (t\<lparr>tempPath := x\<rparr>) d p out = compactResidentPass t d p out"
  by (induction d arbitrary: out) (auto simp: substituted_def)

lemma compacted_createTemp [simp]: "compacted durable (createTemp t) = compacted durable t"
  by (simp add: compacted_def createTemp_def compactFilePass_tempPath compactResidentPass_tempPath
           split: option.split)

text \<open>
  Claim C3. When \<open>save\<close> does not skip compaction and meets no failure, it succeeds; the
  temporary file receives exactly the lines that the specification describes (first
  occurrence of each id of the durable file at its position, deleted ids omitted,
  pending updates substituted, then the resident records the file does not hold)
  while the durable file is still the one compaction started from; and at the end the
  durable file is that output and the temporary file is gone. The durable file that
  compaction reads is the one left by the flush of \<open>pendingWrites\<close> at the start of
  \<open>save\<close>.
\<close>

theorem save_compacts:
  assumes "needs \<or> pendingUpdates t \<noteq> [] \<or> pendingDeletes t \<noteq> []"
  shows "fst (save noFaults needs t) = Inr ()
     \<and> tempPath (writeTemp (filePath (flushPendingWrites False t))
                   (createTemp (flushPendingWrites False t)))
         = Some (compaction_spec (flushPendingWrites False t))
     \<and> filePath (writeTemp (filePath (flushPendingWrites False t))
                   (createTemp (flushPendingWrites False t)))
         = filePath (flushPendingWrites False t)
     \<and> filePath (snd (save noFaults needs t)) = Some (compaction_spec (flushPendingWrites False t))
     \<and> tempPath (snd (save noFaults needs t)) = None"
proof -
  let ?t = "flushPendingWrites False t"
  have w: "writeTemp (filePath ?t) (createTemp ?t) = ?t\<lparr>tempPath := Some (compaction_spec ?t)\<rparr>"
    by (simp add: writeTemp_def compacted_spec[symmetric]) (simp add: createTemp_def)
  have s: "save noFaults needs t
             = (Inr (), saveMetadata (mergePending (renameTemp
                  (writeTemp (filePath ?t) (createTemp ?t)))))"
    using assms by (auto simp: save_def noFaults_def Let_def statDurable_def createTemp_def)
  show ?thesis
    unfolding s w
    by (simp add: saveMetadata_def mergePending_def renameTemp_def Let_def)
qed

theorem save_compacts_witness:
  "(False \<or> pendingUpdates compactExample \<noteq> [] \<or> pendingDeletes compactExample \<noteq> [])
   \<and> filePath (snd (save noFaults False compactExample))
       = Some [Row [(''_id'', Str ''a''), (''v'', Num 1)],
               Row [(''_id'', Str ''b''), (''v'', Num 9)],
               Row [(''_id'', Str ''d''), (''v'', Num 1)]]
   \<and> tempPath (snd (save noFaults False compactExample)) = None"
proof -
  have h: "False \<or> pendingUpdates compactExample \<noteq> [] \<or> pendingDeletes compactExample \<noteq> []"
    by code_simp
  have e: "compaction_spec (flushPendingWrites False compactExample)
       = [Row [(''_id'', Str ''a''), (''v'', Num 1)],
          Row [(''_id'', Str ''b''), (''v'', Num 9)],
          Row [(''_id'', Str ''d''), (''v'', Num 1)]]"
    by code_simp
  from save_compacts[OF h] e h show ?thesis by simp
qed

section \<open>A failed compaction\<close>

lemma unlink_write_create: "unlinkTemp (writeTemp durable (createTemp t)) = unlinkTemp t"
  by (simp add: unlinkTemp_def writeTemp_def createTemp_def)

lemma unlink_create: "unlinkTemp (createTemp t) = unlinkTemp t"
  by (simp add: unlinkTemp_def createTemp_def)

lemma create_unlink: "createTemp (unlinkTemp t) = createTemp t"
  by (simp add: unlinkTemp_def createTemp_def)

lemma flush_unlink: "flushPendingWrites b (unlinkTemp t) = unlinkTemp (flushPendingWrites b t)"
  by (simp add: flushPendingWrites_def unlinkTemp_def)

lemma flush_idem: "flushPendingWrites b (flushPendingWrites False t) = flushPendingWrites False t"
  by (simp add: flushPendingWrites_def)

lemma flush_after_failed: "flushPendingWrites b (flushPendingWrites True t) = flushPendingWrites b t"
  by (simp add: flushPendingWrites_def)

lemma save_unlink:
  assumes "needs \<or> pendingUpdates t \<noteq> [] \<or> pendingDeletes t \<noteq> []"
  shows "save g needs (unlinkTemp t) = save g needs t"
  using assms
  by (simp add: save_def flush_unlink create_unlink Let_def)
     (auto simp: unlinkTemp_def)


text \<open>
  The errors that \<open>save\<close> does throw. When compaction runs and fails at the read of the
  durable file, or at the rename after the write stream has ended well, \<open>save\<close>
  throws; the state it leaves is the state compaction started from (the one after the
  flush of \<open>pendingWrites\<close>) without a temporary file, with \<open>pendingUpdates\<close>,
  \<open>pendingDeletes\<close> and \<open>deletedIds\<close> as before the call, and a following \<open>save\<close> that
  meets no failure ends as a \<open>save\<close> without failure would have ended at first.
\<close>

lemma save_thrown_failure:
  assumes runs: "needs \<or> pendingUpdates t \<noteq> [] \<or> pendingDeletes t \<noteq> []"
      and fault: "(readFails f \<and> \<not> statFails f
                    \<and> filePath (flushPendingWrites (appendFails f) t) \<noteq> None)
                  \<or> (\<not> streamFails f \<and> renameFails f)"
  shows "(\<exists>e. fst (save f needs t) = Inl (Thrown e))
     \<and> snd (save f needs t) = unlinkTemp (flushPendingWrites (appendFails f) t)
     \<and> tempPath (snd (save f needs t)) = None
     \<and> filePath (snd (save f needs t)) = filePath (flushPendingWrites (appendFails f) t)
     \<and> pendingUpdates (snd (save f needs t)) = pendingUpdates t
     \<and> pendingDeletes (snd (save f needs t)) = pendingDeletes t
     \<and> deletedIds (snd (save f needs t)) = deletedIds t
     \<and> save noFaults needs (snd (save f needs t)) = save noFaults needs t"
proof -
  let ?t = "flushPendingWrites (appendFails f) t"
  from runs have run:
    "\<not> (\<not> needs \<and> length (pendingUpdates ?t) = 0 \<and> length (pendingDeletes ?t) = 0)"
    by auto
  have cf: "statDurable b (createTemp ?t) = (if b then None else filePath ?t)" for b
    by (simp add: statDurable_def createTemp_def)
  have err: "\<exists>e. fst (save f needs t) = Inl (Thrown e)"
    using run fault by (auto simp: save_def Let_def cf)
  have st: "snd (save f needs t) = unlinkTemp ?t"
    using run fault by (auto simp: save_def Let_def cf unlink_write_create unlink_create)
  have runs': "needs \<or> pendingUpdates ?t \<noteq> [] \<or> pendingDeletes ?t \<noteq> []"
    using runs by simp
  have "save noFaults needs (unlinkTemp ?t) = save noFaults needs ?t"
    by (rule save_unlink[OF runs'])
  also have "\<dots> = save noFaults needs t"
    by (cases "appendFails f") (simp_all add: save_def flush_idem flush_after_failed noFaults_def)
  finally have retry: "save noFaults needs (unlinkTemp ?t) = save noFaults needs t" .
  show ?thesis
    unfolding st using err retry by (simp add: unlinkTemp_def)
qed

text \<open>
  Claim C4 requires every I/O error during compaction before the rename to be thrown
  to the caller, with the durable file and the buffers untouched. A failed \<open>stat\<close> of
  the durable file is caught and taken for a missing file instead: on
  \<open>compactExample\<close> the \<open>save\<close> then returns normally, the durable file is replaced by
  what the resident Map gives, and the buffers are cleared; on \<open>nonResidentExample\<close>,
  where nothing is resident, the durable file is replaced by an empty one. A failure
  of the write stream is not thrown either: it ends the process.
\<close>

theorem save_swallows_stat_failure:
  "fst (save (noFaults\<lparr>statFails := True\<rparr>) False compactExample) = Inr ()
   \<and> filePath (snd (save (noFaults\<lparr>statFails := True\<rparr>) False compactExample))
       = Some [Row [(''_id'', Str ''a''), (''v'', Num 2)],
               Row [(''_id'', Str ''b''), (''v'', Num 9)],
               Row [(''_id'', Str ''d''), (''v'', Num 1)]]
   \<and> filePath (snd (save (noFaults\<lparr>statFails := True\<rparr>) False compactExample))
       \<noteq> filePath compactExample
   \<and> pendingUpdates compactExample \<noteq> []
   \<and> pendingUpdates (snd (save (noFaults\<lparr>statFails := True\<rparr>) False compactExample)) = []
   \<and> pendingDeletes (snd (save (noFaults\<lparr>statFails := True\<rparr>) False compactExample)) = []
   \<and> fst (save (noFaults\<lparr>statFails := True\<rparr>) False nonResidentExample) = Inr ()
   \<and> filePath (snd (save (noFaults\<lparr>statFails := True\<rparr>) False nonResidentExample)) = Some []
   \<and> pendingDeletes (snd (save (noFaults\<lparr>statFails := True\<rparr>) False nonResidentExample)) = []
   \<and> fst (save (noFaults\<lparr>streamFails := True\<rparr>) False compactExample) = Inl Terminated"
  by code_simp

section \<open>Combining clauses with or\<close>

text \<open>
  For a clause given as a function, \<open>or\<close> after \<open>where\<close> changes nothing in the result:
  the clause of \<open>where\<close> is still applied on its own.
\<close>

lemma or_after_where_changes_nothing:
  "fst (execute (or_q c (where_q ix (Fn a) newQuery)) t)
     = fst (execute (where_q ix (Fn a) newQuery) t)"
proof -
  have absorb: "(p \<and> (p \<or> q)) = p" for p q
    by blast
  show ?thesis
    by (simp add: execute_def or_q_def where_q_def newQuery_def getIndexCandidateSet_def
                  finish_def streamResults_def Let_def absorb)
qed

text \<open>
  Claim C5 requires \<open>where(A).or(B)\<close> to return the visible records satisfying \<open>A\<close> or
  \<open>B\<close>. On \<open>twoRecords\<close>, with \<open>A\<close> the clause \<open>x = 1\<close> and \<open>B\<close> the clause \<open>x = 2\<close>, the
  query returns the first record only, although both visible records satisfy \<open>A\<close> or
  \<open>B\<close>: \<open>or\<close> replaces the last entry of \<open>conditions\<close>, but \<open>execute\<close> filters by
  \<open>nonIndexableConditions\<close>, where the clause \<open>A\<close> stays next to the disjunction.
\<close>

theorem or_keeps_the_previous_clause:
  "fst (execute (or_q (Cond [(''x'', Lit (Num 2))])
                  (find_tbl (Cond [(''x'', Lit (Num 1))]) twoRecords)) twoRecords)
     = [[(''_id'', Num 1), (''x'', Num 1), (''_created'', Str ''T1''), (''_modified'', Str ''T1'')]]
   \<and> filter (\<lambda>r. buildCondition [(''x'', Lit (Num 1))] r \<or> buildCondition [(''x'', Lit (Num 2))] r)
        (fst (execute all_q twoRecords))
     = [[(''_id'', Num 1), (''x'', Num 1), (''_created'', Str ''T1''), (''_modified'', Str ''T1'')],
        [(''_id'', Num 2), (''x'', Num 2), (''_created'', Str ''T2''), (''_modified'', Str ''T2'')]]"
  by code_simp

section \<open>Selection of the first records by a heap\<close>

text \<open>
  Claim C6 requires the heap selection to give the first \<open>k\<close> records of the full sort.
  For eleven records with the values 1 to 11, ascending order and limit 1, the heap
  path is taken and yields the record with the value 11, where the full sort yields
  the record with the value 1: the heap keeps its greatest element (in sort order) at
  the root, and \<open>heapSort\<close> replaces the root by elements that are greater still.
\<close>

theorem heap_selection_differs_from_sort:
  "finish smallestFirst elevenRecords = [[(''_id'', Num 11), (''v'', Num 11)]]
   \<and> take 1 (sortResults smallestFirst elevenRecords) = [[(''_id'', Num 11), (''v'', Num 11)]]
   \<and> take 1 (js_sort (sortCompare smallestFirst) elevenRecords) = [[(''_id'', Num 1), (''v'', Num 1)]]"
  by code_simp

section \<open>Aggregation\<close>

text \<open>
  Claim C7 requires present values, zero included, to take part in the minimum and the
  maximum. Over the values 0 and 5 the minimum computed is 5, and over 0 and -5 the
  maximum computed is -5: \<open>r[f] || Infinity\<close> takes the value 0 for a missing one.
\<close>

theorem aggregate_min_max_skip_zero:
  "aggregateOne (noAgg\<lparr>agg_min := ''x''\<rparr>) [[(''x'', Num 0)], [(''x'', Num 5)]] = Some (Some (Fin 5))
   \<and> aggregateOne (noAgg\<lparr>agg_max := ''x''\<rparr>) [[(''x'', Num 0)], [(''x'', Num (-5))]]
       = Some (Some (Fin (-5)))"
  by code_simp

section \<open>Inserting an id again\<close>

text \<open>
  Claim C8 requires exactly one visible record per id after a second insert of the id.
  On \<open>reinserted\<close> the query without clauses returns both the old and the new record of
  the id \<open>a\<close>, and the unconditional count is 2: both inserts are in \<open>pendingWrites\<close>, and
  the scan appends that buffer as it is.
\<close>

theorem reinsert_is_visible_twice:
  "fst (execute all_q reinserted)
     = [[(''_id'', Str ''a''), (''v'', Num 1), (''_created'', Str ''T1''), (''_modified'', Str ''T1'')],
        [(''_id'', Str ''a''), (''v'', Num 2), (''_created'', Str ''T2''), (''_modified'', Str ''T2'')]]
   \<and> count_tbl reinserted = 2"
  by code_simp

section \<open>Fetching a record after its insert\<close>

lemma map_of_map_set: "map_of (map_set k v m) = (map_of m)(k \<mapsto> v)"
  by (induction m) (auto simp: fun_eq_iff)

lemma getProp_map_set: "getProp (map_set k v r) k' = (if k' = k then v else getProp r k')"
  by (simp add: getProp_def map_of_map_set)

lemma map_get_refreshed: "map_get (map_delete k m @ [(k, v)]) k = Some v"
  by (induction m) (auto simp: map_get_def map_delete_def)

lemma map_get_appended: "\<not> map_has m k \<Longrightarrow> map_get (m @ [(k, v)]) k = Some v"
  by (induction m) (auto simp: map_get_def map_has_def)

lemma map_has_tl: "\<not> map_has m k \<Longrightarrow> \<not> map_has (tl m) k"
  by (cases m) (auto simp: map_has_def split: if_splits)

lemma cache_get_after_set: "fst (cache_get (cache_set k v c) k) = Some v"
  by (auto simp: cache_get_def cache_set_def map_get_refreshed map_get_appended map_has_tl)

lemma cache_has_after_set: "cache_has (cache_set k v c) k"
  using cache_get_after_set[of k v c]
  by (auto simp: cache_has_def cache_get_def map_has_def map_get_def split: option.splits)

lemma set_has_set_delete: "\<not> set_has (set_delete x s) x"
  by (simp add: set_has_def set_delete_def)

text \<open>
  For an id without a pending update the fetch after the insert does return the
  inserted record, with \<open>_id\<close>, \<open>_created\<close> and \<open>_modified\<close> set, the two timestamps
  equal, and every other property as given.
\<close>

lemma insert_then_get:
  assumes "\<not> map_has (pendingUpdates t) (getProp (fullRecord r u ts) ''_id'')"
  shows "fst (get_tbl (getProp (fst (insert_tbl r u ts t)) ''_id'') (snd (insert_tbl r u ts t)))
           = Some (fullRecord r u ts)
       \<and> getProp (fullRecord r u ts) ''_created'' = Str ts
       \<and> getProp (fullRecord r u ts) ''_modified'' = Str ts
       \<and> getProp (fullRecord r u ts) ''_id'' = js_or (js_or (getProp r ''id'') (getProp r ''_id'')) u
       \<and> (\<forall>k. k \<notin> {''_id'', ''_created'', ''_modified''} \<longrightarrow>
              getProp (fullRecord r u ts) k = getProp r k)"
proof -
  have g: "fst (get_tbl (getProp (fst (insert_tbl r u ts t)) ''_id'') (snd (insert_tbl r u ts t)))
           = Some (fullRecord r u ts)"
    using assms
    by (simp add: insert_tbl_def get_tbl_def Let_def set_has_set_delete cache_has_after_set
                  cache_get_after_set split: prod.split)
       (metis cache_get_after_set fst_conv)
  show ?thesis
    using g by (simp add: fullRecord_def Let_def getProp_map_set)
qed

text \<open>
  Claim C9 requires a record fetched right after its insert to be the inserted one.
  On \<open>updatedTable\<close> the id 1 has a pending update; the record inserted under that id
  carries \<open>x = 3\<close>, and the fetch that follows returns the pending update with \<open>x = 2\<close>:
  \<open>insert\<close> clears the deletion marks of the id but not its pending update, which \<open>get\<close>
  consults before the cache.
\<close>

theorem get_after_insert_returns_pending_update:
  "fst (insert_tbl [(''_id'', Num 1), (''x'', Num 3)] (Str ''u'') ''T3'' updatedTable)
     = [(''_id'', Num 1), (''x'', Num 3), (''_created'', Str ''T3''), (''_modified'', Str ''T3'')]
   \<and> fst (get_tbl (Num 1)
            (snd (insert_tbl [(''_id'', Num 1), (''x'', Num 3)] (Str ''u'') ''T3'' updatedTable)))
     = Some [(''_id'', Num 1), (''x'', Num 2), (''_created'', Str ''T1''), (''_modified'', Str ''T2'')]"
  by code_simp

section \<open>Records that are only in the write buffer\<close>










end
